theory Spec2Isabelle
  imports Main "HOL-Library.AList"
begin

section \<open>Values, dictionaries and errors\<close>

text \<open>
  The scaler choice of \<^verbatim>\<open>tabular_preprocessing/scaling/__init__.py\<close>.
  A dataset-properties dictionary maps property names to Python values; the code only
  asks whether the value under \<^verbatim>\<open>numerical_columns\<close> is a list (\<open>is_PList\<close>, for
  \<^verbatim>\<open>isinstance(v, List)\<close>) and how long it is.
\<close>

datatype pyval = PNone | PBool bool | PInt int | PStr string | is_PList: PList (items: "pyval list")

type_synonym dataset_properties = "string \<rightharpoonup> pyval"

text \<open>
  Every \<^verbatim>\<open>raise\<close> of the source is a value. A \<open>ValueError\<close> carries the message
  template and the values formatted into it:
  \<^item> \<open>NoScalersFound\<close>: line 66;
  \<^item> \<open>UpdateChoices\<close>: lines 93--96, with the class name, the available names and the
    override's value range;
  \<^item> \<open>ChoicesIncompatible\<close>: lines 100--101, with the override's value range;
  \<^item> \<open>IncludeIncompatible\<close>: lines 111--112, with the include list;
  \<^item> \<open>IllegalDefault\<close>, \<open>RepeatedChoice\<close>: raised by the categorical hyperparameter's
    constructor;
  \<^item> \<open>UnknownComponent\<close>, \<open>InapplicableComponent\<close>: raised by the applicability filter.
  The \<open>AssertionError\<close> of line 98 has no message (the empty string here); a \<open>KeyError\<close>
  carries the missing key.
\<close>

datatype message =
    NoScalersFound
  | UpdateChoices string "string list" "string list"
  | ChoicesIncompatible "string list"
  | IncludeIncompatible "string list"
  | IllegalDefault string
  | RepeatedChoice string
  | UnknownComponent string
  | InapplicableComponent string

datatype error = ValueError message | AssertionError string | KeyError string | IndexError

section \<open>Search-space updates and configuration spaces\<close>

text \<open>
  A search-space update (\<^verbatim>\<open>HyperparameterSearchSpace\<close>): the source reads
  \<^verbatim>\<open>value_range\<close> and \<^verbatim>\<open>default_value\<close> of the update stored under \<^verbatim>\<open>__choice__\<close>.
\<close>

record HyperparameterSearchSpace =
  hyperparameter :: string
  value_range :: "string list"
  default_value :: string

type_synonym updates = "string \<rightharpoonup> HyperparameterSearchSpace"

record categorical =
  name :: string
  choices :: "string list"
  hp_default_value :: string

text \<open>
  Modelled from the spec: the constructor \<^verbatim>\<open>CSH.CategoricalHyperparameter\<close> belongs to the
  configuration-space library, which is not under src/. The spec makes the default of a
  categorical a member of its own domain (section 3) and a stated default outside the
  allowed range a failure (section 4.4); the library refuses a choice listed twice, and
  with no default given (\<^verbatim>\<open>default_value=None\<close>) it takes the first choice.
\<close>

definition CategoricalHyperparameter :: "string \<Rightarrow> string list \<Rightarrow> string option \<Rightarrow> error + categorical" where
  "CategoricalHyperparameter nm cs dflt =
     (case List.find (\<lambda>c. 1 < count_list cs c) cs of
        Some c \<Rightarrow> Inl (ValueError (RepeatedChoice c))
      | None \<Rightarrow>
          (case dflt of
             None \<Rightarrow>
               (case cs of
                  [] \<Rightarrow> Inl IndexError
                | c # _ \<Rightarrow> Inr \<lparr>name = nm, choices = cs, hp_default_value = c\<rparr>)
           | Some d \<Rightarrow>
               if d \<in> set cs then Inr \<lparr>name = nm, choices = cs, hp_default_value = d\<rparr>
               else Inl (ValueError (IllegalDefault d))))"

text \<open>
  The composed space: its hyperparameters in insertion order, and the sub-spaces grafted
  under a prefix, each with its parent condition (the parent hyperparameter and the value
  that activates the sub-space). \<open>'s\<close> is the type of a variant's own sub-space.
\<close>

record 's config_space =
  hyperparameters :: "categorical list"
  sub_spaces :: "(string \<times> 's \<times> categorical \<times> string) list"

definition ConfigurationSpace :: "'s config_space" where
  "ConfigurationSpace = \<lparr>hyperparameters = [], sub_spaces = []\<rparr>"

definition add_hyperparameter :: "'s config_space \<Rightarrow> categorical \<Rightarrow> 's config_space" where
  "add_hyperparameter cs hp = cs\<lparr>hyperparameters := hyperparameters cs @ [hp]\<rparr>"

definition add_configuration_space ::
  "'s config_space \<Rightarrow> string \<Rightarrow> 's \<Rightarrow> categorical \<times> string \<Rightarrow> 's config_space" where
  "add_configuration_space cs prefix sub parent_hyperparameter =
     cs\<lparr>sub_spaces := sub_spaces cs @ [(prefix, sub, parent_hyperparameter)]\<rparr>"

definition get_hyperparameter :: "'s config_space \<Rightarrow> string \<Rightarrow> categorical option" where
  "get_hyperparameter cs nm = List.find (\<lambda>hp. name hp = nm) (hyperparameters cs)"

section \<open>The registry, the choice object and its base class\<close>

text \<open>
  The state a call can read or write: the module's registry (\<^verbatim>\<open>_scalers\<close>, the built-in
  variants, and \<^verbatim>\<open>_addons.components\<close>, the third-party ones), both ordered dictionaries,
  and the attributes of the choice object: \<^verbatim>\<open>self.dataset_properties\<close>,
  \<^verbatim>\<open>self.configuration_space\<close> (the most recent result) and \<^verbatim>\<open>self._cs_updates\<close>.
  \<open>'c\<close> is the type of a component.
\<close>

record ('c, 's) state =
  scalers :: "(string \<times> 'c) list"
  addons :: "(string \<times> 'c) list"
  self_dataset_properties :: dataset_properties
  self_configuration_space :: "'s config_space option"
  self_cs_updates :: "(string \<times> HyperparameterSearchSpace) list"

text \<open>
  \<^verbatim>\<open>get_components\<close> (lines 34--47): an ordered dictionary updated with the built-in
  variants, then with the third-party ones; a key that is already there keeps its place
  and takes the new value.
\<close>

definition dict_update :: "(string \<times> 'c) list \<Rightarrow> (string \<times> 'c) list \<Rightarrow> (string \<times> 'c) list" where
  "dict_update d other = fold (\<lambda>(k, v). AList.update k v) other d"

definition get_components :: "('c, 's) state \<Rightarrow> (string \<times> 'c) list" where
  "get_components st = dict_update (dict_update [] (scalers st)) (addons st)"

text \<open>
  The methods the source calls and does not define: they come from the base class
  \<^verbatim>\<open>autoPyTorchChoice\<close> and from the components, none of them under src/. The model takes
  them as parameters, so every theorem below holds for whatever they compute:
  \<^item> \<^verbatim>\<open>self.get_available_components(dataset_properties, include, exclude)\<close>;
  \<^item> \<^verbatim>\<open>self._get_search_space_updates(prefix)\<close>;
  \<^item> a component's own \<^verbatim>\<open>get_hyperparameter_search_space(dataset_properties, **updates)\<close>;
  \<^item> \<^verbatim>\<open>super()._check_dataset_properties(dataset_properties)\<close>.
  They read the state and do not write it.
\<close>

record ('c, 's) autoPyTorchChoice =
  get_available_components ::
    "('c, 's) state \<Rightarrow> dataset_properties \<Rightarrow> string list option \<Rightarrow> string list option
       \<Rightarrow> error + (string \<times> 'c) list"
  get_search_space_updates :: "('c, 's) state \<Rightarrow> string option \<Rightarrow> updates"
  component_search_space :: "'c \<Rightarrow> dataset_properties \<Rightarrow> updates \<Rightarrow> error + 's"
  super_check_dataset_properties :: "dataset_properties \<Rightarrow> error + unit"

section \<open>get\_hyperparameter\_search\_space\<close>

text \<open>Lines 56--59: no argument is the empty dictionary; the argument's entries win.\<close>

definition merged_dataset_properties ::
  "('c, 's) state \<Rightarrow> dataset_properties option \<Rightarrow> dataset_properties" where
  "merged_dataset_properties self dataset_properties =
     self_dataset_properties self ++ (case dataset_properties of None \<Rightarrow> Map.empty | Some d \<Rightarrow> d)"

text \<open>Lines 69--77: the fixed preference order.\<close>

definition defaults :: "string list" where
  "defaults = [''StandardScaler'', ''Normalizer'', ''MinMaxScaler'', ''PowerTransformer'',
               ''QuantileTransformer'', ''RobustScaler'', ''NoScaler'']"

text \<open>
  Lines 78--85, the loop over the preference order: \<^verbatim>\<open>continue\<close> is the recursive call,
  \<^verbatim>\<open>break\<close> returns the name, and a scan that reaches the end leaves the default unset.
\<close>

fun scan_defaults ::
  "string list \<Rightarrow> (string \<times> 'c) list \<Rightarrow> string list option \<Rightarrow> string list option \<Rightarrow> string option" where
  "scan_defaults [] available_scalers include exclude = None"
| "scan_defaults (default' # rest) available_scalers include exclude =
     (if default' \<in> set (map fst available_scalers) then
        (if include \<noteq> None \<and> default' \<notin> set (the include) then
           scan_defaults rest available_scalers include exclude
         else if exclude \<noteq> None \<and> default' \<in> set (the exclude) then
           scan_defaults rest available_scalers include exclude
         else Some default')
      else scan_defaults rest available_scalers include exclude)"

text \<open>Lines 68--85: an explicit default is kept; otherwise the scan decides.\<close>

definition resolve_default ::
  "string option \<Rightarrow> (string \<times> 'c) list \<Rightarrow> string list option \<Rightarrow> string list option \<Rightarrow> string option" where
  "resolve_default dflt available_scalers include exclude =
     (case dflt of
        None \<Rightarrow> scan_defaults defaults available_scalers include exclude
      | Some d \<Rightarrow> Some d)"

text \<open>
  Lines 87--88: the subscript raises \<open>KeyError\<close> on a missing key; a value that is not a
  list counts as no numerical columns.
\<close>

definition numerical_columns_of :: "dataset_properties \<Rightarrow> error + pyval list" where
  "numerical_columns_of dataset_properties =
     (case dataset_properties ''numerical_columns'' of
        None \<Rightarrow> Inl (KeyError ''numerical_columns'')
      | Some v \<Rightarrow> Inr (if is_PList v then items v else []))"

text \<open>
  Lines 90--119: the top-level categorical. With an update under \<^verbatim>\<open>__choice__\<close>: the
  subset check, then for a dataset with no numerical columns the assertion on the length
  of the range and the check that it holds the no-op variant, then the constructor with
  the update's range and default. Without one: the no-op variant alone when there are no
  numerical columns (after the check of the include list), the available names with the
  resolved default otherwise.
\<close>

definition choice_preprocessor ::
  "updates \<Rightarrow> (string \<times> 'c) list \<Rightarrow> pyval list \<Rightarrow> string option \<Rightarrow> string list option
     \<Rightarrow> error + categorical" where
  "choice_preprocessor upd available_scalers numerical_columns dflt include =
     (case upd ''__choice__'' of
        Some choice_hyperparameter \<Rightarrow>
          if \<not> set (value_range choice_hyperparameter) \<subseteq> set (map fst available_scalers) then
            Inl (ValueError (UpdateChoices ''ScalerChoice'' (map fst available_scalers)
                               (value_range choice_hyperparameter)))
          else if length numerical_columns = 0 \<and> length (value_range choice_hyperparameter) \<noteq> 1 then
            Inl (AssertionError [])
          else if length numerical_columns = 0
                  \<and> ''NoScaler'' \<notin> set (value_range choice_hyperparameter) then
            Inl (ValueError (ChoicesIncompatible (value_range choice_hyperparameter)))
          else
            CategoricalHyperparameter ''__choice__'' (value_range choice_hyperparameter)
              (Some (default_value choice_hyperparameter))
      | None \<Rightarrow>
          if length numerical_columns = 0 then
            (if include \<noteq> None \<and> ''NoScaler'' \<notin> set (the include) then
               Inl (ValueError (IncludeIncompatible (the include)))
             else CategoricalHyperparameter ''__choice__'' [''NoScaler''] (Some ''NoScaler''))
          else
            CategoricalHyperparameter ''__choice__'' (map fst available_scalers) dflt)"

text \<open>
  Lines 123--129, the loop over the choices: the updates addressed to the name, the
  lookup of the name among the available variants (\<open>KeyError\<close> when it is not there), the
  variant's own sub-space, grafted under the condition that the choice has this value.
\<close>

fun add_children ::
  "('c, 's) autoPyTorchChoice \<Rightarrow> ('c, 's) state \<Rightarrow> (string \<times> 'c) list \<Rightarrow> dataset_properties
     \<Rightarrow> categorical \<Rightarrow> string list \<Rightarrow> 's config_space \<Rightarrow> error + 's config_space" where
  "add_children base self available_scalers dataset_properties preprocessor [] cs = Inr cs"
| "add_children base self available_scalers dataset_properties preprocessor (nm # rest) cs =
     (let upd = get_search_space_updates base self (Some nm) in
        (case map_of available_scalers nm of
           None \<Rightarrow> Inl (KeyError nm)
         | Some component \<Rightarrow>
             (case component_search_space base component dataset_properties upd of
                Inl e \<Rightarrow> Inl e
              | Inr config_space \<Rightarrow>
                  add_children base self available_scalers dataset_properties preprocessor rest
                    (add_configuration_space cs nm config_space (preprocessor, nm)))))"

text \<open>
  Lines 49--133. The result is the space or the error, together with the state after the
  call: an exception leaves the state as it was, since the two assignments to \<^verbatim>\<open>self\<close>
  (lines 131--132) are the last statements before the return.
\<close>

definition get_hyperparameter_search_space ::
  "('c, 's) autoPyTorchChoice \<Rightarrow> ('c, 's) state \<Rightarrow> dataset_properties option \<Rightarrow> string option
     \<Rightarrow> string list option \<Rightarrow> string list option
     \<Rightarrow> (error + 's config_space) \<times> ('c, 's) state" where
  "get_hyperparameter_search_space base self dataset_properties dflt include exclude =
     (let cs = ConfigurationSpace;
          dataset_properties = merged_dataset_properties self dataset_properties
      in (case get_available_components base self dataset_properties include exclude of
            Inl e \<Rightarrow> (Inl e, self)
          | Inr available_scalers \<Rightarrow>
              if length available_scalers = 0 then (Inl (ValueError NoScalersFound), self)
              else
                (let dflt = resolve_default dflt available_scalers include exclude in
                   (case numerical_columns_of dataset_properties of
                      Inl e \<Rightarrow> (Inl e, self)
                    | Inr numerical_columns \<Rightarrow>
                        (case choice_preprocessor (get_search_space_updates base self None)
                                available_scalers numerical_columns dflt include of
                           Inl e \<Rightarrow> (Inl e, self)
                         | Inr preprocessor \<Rightarrow>
                             (case add_children base self available_scalers dataset_properties
                                     preprocessor (choices preprocessor)
                                     (add_hyperparameter cs preprocessor) of
                                Inl e \<Rightarrow> (Inl e, self)
                              | Inr cs \<Rightarrow>
                                  (Inr cs,
                                   self\<lparr>self_configuration_space := Some cs,
                                        self_dataset_properties := dataset_properties\<rparr>)))))))"

text \<open>
  Lines 135--147: the base class's check first, then the assertion that both column
  keys are present.
\<close>

definition check_dataset_properties ::
  "('c, 's) autoPyTorchChoice \<Rightarrow> dataset_properties \<Rightarrow> error + unit" where
  "check_dataset_properties base dataset_properties =
     (case super_check_dataset_properties base dataset_properties of
        Inl e \<Rightarrow> Inl e
      | Inr _ \<Rightarrow>
          if ''numerical_columns'' \<in> dom dataset_properties
             \<and> ''categorical_columns'' \<in> dom dataset_properties
          then Inr ()
          else Inl (AssertionError
                 ''Dataset properties must contain information about the type of columns''))"

text \<open>
  Modelled from the spec: the creation of the choice object, which the base class does and
  which is not under src/. The validator is a precondition check run before composition,
  first in the control flow (section 2), so that both column keys are present or the
  engine fails before any other work (section 3): the object is created over the registry
  with a property bag, the validator checks the bag, and the object keeps it as the bag
  that line 59 merges the argument of a call into; there is no result and no search-space
  update yet.
\<close>

definition ScalerChoice_init ::
  "('c, 's) autoPyTorchChoice \<Rightarrow> (string \<times> 'c) list \<Rightarrow> (string \<times> 'c) list
     \<Rightarrow> dataset_properties \<Rightarrow> error + ('c, 's) state" where
  "ScalerChoice_init base builtin third_party dataset_properties =
     (case check_dataset_properties base dataset_properties of
        Inl e \<Rightarrow> Inl e
      | Inr _ \<Rightarrow>
          Inr \<lparr>scalers = builtin, addons = third_party,
               self_dataset_properties = dataset_properties,
               self_configuration_space = None,
               self_cs_updates = []\<rparr>)"

section \<open>The collaborators as the spec describes them\<close>

text \<open>
  Modelled from the spec: a variant descriptor (section 3), for the components, whose
  classes are not under src/: a name, a sub-space constructor taking the dataset
  properties and the overrides addressed to the variant, and an applicability predicate.
  A sub-space is the list of the names of its parameters.
\<close>

record VariantDescriptor =
  variant_name :: string
  sub_space_constructor :: "dataset_properties \<Rightarrow> updates \<Rightarrow> error + string list"
  applicability_predicate :: "dataset_properties \<Rightarrow> bool"

text \<open>
  Modelled from the spec: the applicability filter (section 4.2), for
  \<^verbatim>\<open>get_available_components\<close> of the base class, which is not under src/. A non-empty
  include list restricts the result to its names, and a name of it that is not registered
  or not applicable is an error; the exclude list removes names; the variants left that
  are not applicable are dropped. The failure on an empty result is the source's own
  check (line 65) and is not repeated here.
\<close>

definition filter_components ::
  "(string \<times> VariantDescriptor) list \<Rightarrow> dataset_properties \<Rightarrow> string list option
     \<Rightarrow> string list option \<Rightarrow> error + (string \<times> VariantDescriptor) list" where
  "filter_components all_variants dataset_properties include exclude =
     (let included = (case include of None \<Rightarrow> [] | Some inc \<Rightarrow> inc);
          excluded = (case exclude of None \<Rightarrow> [] | Some exc \<Rightarrow> exc)
      in (case List.find (\<lambda>nm. nm \<notin> set (map fst all_variants)) included of
            Some nm \<Rightarrow> Inl (ValueError (UnknownComponent nm))
          | None \<Rightarrow>
              (case List.find (\<lambda>nm. case map_of all_variants nm of
                                      None \<Rightarrow> False
                                    | Some v \<Rightarrow> \<not> applicability_predicate v dataset_properties)
                      included of
                 Some nm \<Rightarrow> Inl (ValueError (InapplicableComponent nm))
               | None \<Rightarrow>
                   Inr (filter (\<lambda>(nm, v). (included = [] \<or> nm \<in> set included)
                                  \<and> nm \<notin> set excluded
                                  \<and> applicability_predicate v dataset_properties)
                          all_variants))))"

text \<open>
  Modelled from the spec: the override map (sections 3 and 4.4), for
  \<^verbatim>\<open>_get_search_space_updates\<close> of the base class, which is not under src/. Without a prefix
  it is the table of the choice object as it stands (the top-level override is the entry
  the source looks up under \<^verbatim>\<open>__choice__\<close>); with a variant's name as prefix it is the
  entries keyed under that name, the prefix and its delimiter taken off the key.
\<close>

definition search_space_updates :: "('c, 's) state \<Rightarrow> string option \<Rightarrow> updates" where
  "search_space_updates self prefix =
     (case prefix of
        None \<Rightarrow> map_of (self_cs_updates self)
      | Some p \<Rightarrow>
          map_of (List.map_filter
                    (\<lambda>(k, u). if take (length p) k = p then Some (drop (length p + 1) k, u) else None)
                    (self_cs_updates self)))"

definition spec_base :: "(VariantDescriptor, string list) autoPyTorchChoice" where
  "spec_base =
     \<lparr>get_available_components = (\<lambda>self. filter_components (get_components self)),
      get_search_space_updates = search_space_updates,
      component_search_space = sub_space_constructor,
      super_check_dataset_properties = (\<lambda>_. Inr ())\<rparr>"

subsection \<open>The scenarios of the spec (section 8)\<close>

text \<open>
  A variant that applies to every dataset and has no parameters of its own; the registry
  of scenarios 1 and 2 (StandardScaler and NoScaler, built in), a registry holding one
  third-party variant only, the two property bags of the scenarios, a bag with each of
  the two column keys missing, a bag whose \<^verbatim>\<open>numerical_columns\<close> is a
  string, and the top-level override with a given range and default.
\<close>

definition plain_variant :: "string \<Rightarrow> VariantDescriptor" where
  "plain_variant nm =
     \<lparr>variant_name = nm, sub_space_constructor = (\<lambda>_ _. Inr []),
      applicability_predicate = (\<lambda>_. True)\<rparr>"

definition scenario_choice ::
  "(string \<times> HyperparameterSearchSpace) list \<Rightarrow> (VariantDescriptor, string list) state" where
  "scenario_choice upd =
     \<lparr>scalers = [(''StandardScaler'', plain_variant ''StandardScaler''),
                 (''NoScaler'', plain_variant ''NoScaler'')],
      addons = [],
      self_dataset_properties = Map.empty,
      self_configuration_space = None,
      self_cs_updates = upd\<rparr>"

definition third_party_choice ::
  "(string \<times> HyperparameterSearchSpace) list \<Rightarrow> (VariantDescriptor, string list) state" where
  "third_party_choice upd =
     \<lparr>scalers = [],
      addons = [(''MyScaler'', plain_variant ''MyScaler'')],
      self_dataset_properties = Map.empty,
      self_configuration_space = None,
      self_cs_updates = upd\<rparr>"

definition numerical_properties :: dataset_properties where
  "numerical_properties =
     [''numerical_columns'' \<mapsto> PList [PStr ''c1''], ''categorical_columns'' \<mapsto> PList []]"

definition categorical_properties :: dataset_properties where
  "categorical_properties =
     [''numerical_columns'' \<mapsto> PList [], ''categorical_columns'' \<mapsto> PList [PStr ''c1'']]"

definition numerical_only_properties :: dataset_properties where
  "numerical_only_properties = [''numerical_columns'' \<mapsto> PList [PStr ''c1'']]"

definition categorical_only_properties :: dataset_properties where
  "categorical_only_properties = [''categorical_columns'' \<mapsto> PList [PStr ''c1'']]"

definition string_properties :: dataset_properties where
  "string_properties =
     [''numerical_columns'' \<mapsto> PStr ''c1'', ''categorical_columns'' \<mapsto> PList []]"

definition choice_update :: "string list \<Rightarrow> string \<Rightarrow> string \<times> HyperparameterSearchSpace" where
  "choice_update allowed d =
     (''__choice__'', \<lparr>hyperparameter = ''__choice__'', value_range = allowed, default_value = d\<rparr>)"

section \<open>Lemmas about the pieces\<close>

lemma count_list_distinct: "distinct cs \<longleftrightarrow> (\<forall>c \<in> set cs. count_list cs c \<le> 1)"
proof (induction cs)
  case Nil
  show ?case by simp
next
  case (Cons a cs)
  show ?case
  proof (cases "a \<in> set cs")
    case True
    then have "0 < count_list cs a" using count_list_0_iff[of cs a] by auto
    with True show ?thesis by auto
  next
    case False
    with Cons show ?thesis by auto
  qed
qed

lemma repeated_choice_None: "List.find (\<lambda>c. 1 < count_list cs c) cs = None \<longleftrightarrow> distinct cs"
  by (auto simp: find_None_iff count_list_distinct not_less)

lemma distinct_no_repeated_choice:
  "distinct cs \<Longrightarrow> List.find (\<lambda>c. Suc 0 < count_list cs c) cs = None"
  using repeated_choice_None[of cs] by simp

lemma CategoricalHyperparameter_Inr:
  assumes "CategoricalHyperparameter nm cs d = Inr p"
  shows "name p = nm \<and> choices p = cs \<and> hp_default_value p \<in> set cs \<and> distinct cs
         \<and> hp_default_value p = (case d of None \<Rightarrow> hd cs | Some x \<Rightarrow> x)"
proof -
  from assms have "List.find (\<lambda>c. 1 < count_list cs c) cs = None"
    by (auto simp: CategoricalHyperparameter_def split: option.splits)
  then have "distinct cs" by (simp only: repeated_choice_None)
  with assms show ?thesis
    by (auto simp: CategoricalHyperparameter_def split: option.splits list.splits if_splits)
qed

lemma CategoricalHyperparameter_illegal_distinct:
  assumes "d \<notin> set cs" and "distinct cs"
  shows "CategoricalHyperparameter nm cs (Some d) = Inl (ValueError (IllegalDefault d))"
  using assms by (simp add: CategoricalHyperparameter_def distinct_no_repeated_choice)

lemma CategoricalHyperparameter_None:
  assumes "distinct (c # cs)"
  shows "CategoricalHyperparameter nm (c # cs) None = Inr \<lparr>name = nm, choices = c # cs, hp_default_value = c\<rparr>"
proof -
  have "List.find (\<lambda>x. 1 < count_list (c # cs) x) (c # cs) = None"
    using assms by (simp only: repeated_choice_None)
  then show ?thesis by (simp add: CategoricalHyperparameter_def)
qed

lemma scan_defaults_find:
  "scan_defaults ds av inc exc =
     List.find (\<lambda>d. d \<in> set (map fst av) \<and> (inc = None \<or> d \<in> set (the inc))
                      \<and> (exc = None \<or> d \<notin> set (the exc))) ds"
  by (induction ds) auto

lemma map_of_Some_key:
  assumes "map_of av nm = Some c"
  shows "nm \<in> set (map fst av)"
proof -
  from assms have "nm \<in> dom (map_of av)" by blast
  then show ?thesis by (simp add: dom_map_of_conv_image_fst)
qed

lemma add_children_Inr:
  assumes "add_children base self av dp p names cs = Inr cs'"
  shows "hyperparameters cs' = hyperparameters cs \<and> set names \<subseteq> set (map fst av)"
  using assms
proof (induction names arbitrary: cs)
  case Nil
  then show ?case by simp
next
  case (Cons nm rest)
  then show ?case
    using map_of_Some_key[of av nm]
    by (auto simp: Let_def add_configuration_space_def split: option.splits sum.splits)
qed

lemma add_children_succeeds:
  assumes "\<forall>nm \<in> set names. \<exists>c s. map_of av nm = Some c
              \<and> component_search_space base c dp (get_search_space_updates base self (Some nm)) = Inr s"
  shows "\<exists>cs'. add_children base self av dp p names cs = Inr cs'"
  using assms
proof (induction names arbitrary: cs)
  case Nil
  then show ?case by simp
next
  case (Cons nm rest)
  then show ?case by (fastforce simp: Let_def)
qed

lemma ghss_stages:
  assumes "get_available_components base self (merged_dataset_properties self dpo) inc exc = Inr av"
    and "av \<noteq> []"
    and "numerical_columns_of (merged_dataset_properties self dpo) = Inr cols"
  shows "get_hyperparameter_search_space base self dpo dflt inc exc =
           (case choice_preprocessor (get_search_space_updates base self None) av cols
                   (resolve_default dflt av inc exc) inc of
              Inl e \<Rightarrow> (Inl e, self)
            | Inr p \<Rightarrow>
                (case add_children base self av (merged_dataset_properties self dpo) p (choices p)
                        (add_hyperparameter ConfigurationSpace p) of
                   Inl e \<Rightarrow> (Inl e, self)
                 | Inr cs \<Rightarrow>
                     (Inr cs, self\<lparr>self_configuration_space := Some cs,
                                   self_dataset_properties := merged_dataset_properties self dpo\<rparr>)))"
  using assms by (simp add: get_hyperparameter_search_space_def Let_def)

lemma ghss_error_state:
  assumes "fst (get_hyperparameter_search_space base self dpo dflt inc exc) = Inl e"
  shows "snd (get_hyperparameter_search_space base self dpo dflt inc exc) = self"
  using assms
  by (auto simp: get_hyperparameter_search_space_def Let_def split: sum.splits if_splits)

lemma ghss_Inr_stages:
  assumes "get_hyperparameter_search_space base self dpo dflt inc exc = (Inr cs, self')"
  shows "\<exists>av cols p.
           get_available_components base self (merged_dataset_properties self dpo) inc exc = Inr av
         \<and> av \<noteq> []
         \<and> numerical_columns_of (merged_dataset_properties self dpo) = Inr cols
         \<and> choice_preprocessor (get_search_space_updates base self None) av cols
                   (resolve_default dflt av inc exc) inc = Inr p
         \<and> add_children base self av (merged_dataset_properties self dpo) p (choices p)
                        (add_hyperparameter ConfigurationSpace p) = Inr cs
         \<and> self' = self\<lparr>self_configuration_space := Some cs,
                        self_dataset_properties := merged_dataset_properties self dpo\<rparr>"
  using assms
  by (auto simp: get_hyperparameter_search_space_def Let_def split: sum.splits if_splits)

text \<open>
  A dataset without numerical columns and without a top-level override: the whole call,
  stage by stage.
\<close>

lemma merged_argument:
  assumes "dp k = Some v"
  shows "merged_dataset_properties self (Some dp) k = Some v"
  using assms by (simp add: merged_dataset_properties_def map_add_def)

lemma numerical_columns_of_empty:
  assumes "dp ''numerical_columns'' = Some (PList [])"
  shows "numerical_columns_of (merged_dataset_properties self (Some dp)) = Inr []"
  using assms merged_argument[of dp "''numerical_columns''" "PList []" self]
  by (simp add: numerical_columns_of_def)

lemma numerical_columns_of_not_list:
  assumes "dp ''numerical_columns'' = Some v" and "\<not> is_PList v"
  shows "numerical_columns_of (merged_dataset_properties self (Some dp)) = Inr []"
  using assms merged_argument[of dp "''numerical_columns''" v self]
  by (simp add: numerical_columns_of_def)

lemma noop_preprocessor:
  assumes "upd ''__choice__'' = None"
  shows "choice_preprocessor upd av [] dflt inc =
           (if inc \<noteq> None \<and> ''NoScaler'' \<notin> set (the inc)
            then Inl (ValueError (IncludeIncompatible (the inc)))
            else Inr \<lparr>name = ''__choice__'', choices = [''NoScaler''],
                      hp_default_value = ''NoScaler''\<rparr>)"
  using assms by (simp add: choice_preprocessor_def CategoricalHyperparameter_def)

lemma noop_only_result:
  assumes nc: "numerical_columns_of (merged_dataset_properties self dpo) = Inr []"
    and upd: "get_search_space_updates base self None ''__choice__'' = None"
    and av: "get_available_components base self (merged_dataset_properties self dpo) inc exc = Inr av"
    and ne: "av \<noteq> []"
  shows "get_hyperparameter_search_space base self dpo dflt inc exc =
           (if inc \<noteq> None \<and> ''NoScaler'' \<notin> set (the inc)
            then (Inl (ValueError (IncludeIncompatible (the inc))), self)
            else
              (case map_of av ''NoScaler'' of
                 None \<Rightarrow> (Inl (KeyError ''NoScaler''), self)
               | Some c \<Rightarrow>
                   (case component_search_space base c (merged_dataset_properties self dpo)
                           (get_search_space_updates base self (Some ''NoScaler'')) of
                      Inl e \<Rightarrow> (Inl e, self)
                    | Inr s \<Rightarrow>
                        (Inr \<lparr>hyperparameters =
                                [\<lparr>name = ''__choice__'', choices = [''NoScaler''],
                                  hp_default_value = ''NoScaler''\<rparr>],
                              sub_spaces =
                                [(''NoScaler'', s,
                                  \<lparr>name = ''__choice__'', choices = [''NoScaler''],
                                   hp_default_value = ''NoScaler''\<rparr>, ''NoScaler'')]\<rparr>,
                         self\<lparr>self_configuration_space :=
                                Some \<lparr>hyperparameters =
                                       [\<lparr>name = ''__choice__'', choices = [''NoScaler''],
                                         hp_default_value = ''NoScaler''\<rparr>],
                                     sub_spaces =
                                       [(''NoScaler'', s,
                                         \<lparr>name = ''__choice__'', choices = [''NoScaler''],
                                          hp_default_value = ''NoScaler''\<rparr>, ''NoScaler'')]\<rparr>,
                              self_dataset_properties := merged_dataset_properties self dpo\<rparr>))))"
  using upd
  by (simp add: ghss_stages[OF av ne nc] noop_preprocessor Let_def
        add_hyperparameter_def add_configuration_space_def ConfigurationSpace_def
      split: option.splits sum.splits)

lemma noop_only_Inr:
  assumes nc: "numerical_columns_of (merged_dataset_properties self dpo) = Inr []"
    and upd: "get_search_space_updates base self None ''__choice__'' = None"
    and r: "get_hyperparameter_search_space base self dpo dflt inc exc = (Inr cs, self')"
  shows "hyperparameters cs =
           [\<lparr>name = ''__choice__'', choices = [''NoScaler''], hp_default_value = ''NoScaler''\<rparr>]"
proof -
  from ghss_Inr_stages[OF r] obtain av where
    av: "get_available_components base self (merged_dataset_properties self dpo) inc exc = Inr av"
    and ne: "av \<noteq> []"
    by blast
  from r show ?thesis
    unfolding noop_only_result[OF nc upd av ne]
    by (auto split: if_splits option.splits sum.splits)
qed

lemma noop_only_succeeds:
  assumes nc: "numerical_columns_of (merged_dataset_properties self dpo) = Inr []"
    and upd: "get_search_space_updates base self None ''__choice__'' = None"
    and av: "get_available_components base self (merged_dataset_properties self dpo) inc exc = Inr av"
    and inc: "inc = None \<or> ''NoScaler'' \<in> set (the inc)"
    and c: "map_of av ''NoScaler'' = Some c"
    and s: "component_search_space base c (merged_dataset_properties self dpo)
              (get_search_space_updates base self (Some ''NoScaler'')) = Inr s"
  shows "fst (get_hyperparameter_search_space base self dpo dflt inc exc) =
           Inr \<lparr>hyperparameters =
                  [\<lparr>name = ''__choice__'', choices = [''NoScaler''],
                    hp_default_value = ''NoScaler''\<rparr>],
                sub_spaces =
                  [(''NoScaler'', s,
                    \<lparr>name = ''__choice__'', choices = [''NoScaler''],
                     hp_default_value = ''NoScaler''\<rparr>, ''NoScaler'')]\<rparr>"
proof -
  from c have ne: "av \<noteq> []" by auto
  from inc c s show ?thesis
    unfolding noop_only_result[OF nc upd av ne] by auto
qed

text \<open>
  A call fails, and leaves the state as it was, when the top-level categorical cannot be
  built; the checks of a top-level override, in the order of lines 92--105.
\<close>

lemma ghss_fails:
  assumes "\<And>av cols p.
             get_available_components base self (merged_dataset_properties self dpo) inc exc = Inr av
             \<Longrightarrow> numerical_columns_of (merged_dataset_properties self dpo) = Inr cols
             \<Longrightarrow> choice_preprocessor (get_search_space_updates base self None) av cols
                    (resolve_default dflt av inc exc) inc = Inr p
             \<Longrightarrow> False"
  shows "\<exists>e. get_hyperparameter_search_space base self dpo dflt inc exc = (Inl e, self)"
proof (cases "fst (get_hyperparameter_search_space base self dpo dflt inc exc)")
  case (Inl e)
  with ghss_error_state[OF Inl] show ?thesis by (metis prod.collapse)
next
  case (Inr cs)
  then have "get_hyperparameter_search_space base self dpo dflt inc exc
               = (Inr cs, snd (get_hyperparameter_search_space base self dpo dflt inc exc))"
    by (metis prod.collapse)
  from ghss_Inr_stages[OF this] assms show ?thesis by blast
qed

lemma override_preprocessor:
  assumes "upd ''__choice__'' = Some h"
  shows "choice_preprocessor upd av cols dflt inc =
           (if \<not> set (value_range h) \<subseteq> set (map fst av) then
              Inl (ValueError (UpdateChoices ''ScalerChoice'' (map fst av) (value_range h)))
            else if cols = [] \<and> length (value_range h) \<noteq> 1 then Inl (AssertionError [])
            else if cols = [] \<and> ''NoScaler'' \<notin> set (value_range h) then
              Inl (ValueError (ChoicesIncompatible (value_range h)))
            else CategoricalHyperparameter ''__choice__'' (value_range h) (Some (default_value h)))"
  using assms by (simp add: choice_preprocessor_def)

lemma singleton_other:
  assumes "length xs = 1" and "xs \<noteq> [x]"
  shows "x \<notin> set xs"
  using assms by (cases xs) auto

text \<open>Whatever branch builds the top-level categorical, it is a well-formed choice.\<close>

lemma choice_preprocessor_Inr:
  assumes "choice_preprocessor upd av cols dflt inc = Inr p"
  shows "name p = ''__choice__'' \<and> hp_default_value p \<in> set (choices p)
         \<and> distinct (choices p)"
proof -
  from assms obtain cs d where "CategoricalHyperparameter ''__choice__'' cs d = Inr p"
    by (auto simp: choice_preprocessor_def split: option.splits if_splits)
  from CategoricalHyperparameter_Inr[OF this] show ?thesis by auto
qed

text \<open>Numerical columns and no top-level override: the choice over the available names.\<close>

lemma plain_preprocessor:
  assumes "upd ''__choice__'' = None" and "cols \<noteq> []"
  shows "choice_preprocessor upd av cols dflt inc
           = CategoricalHyperparameter ''__choice__'' (map fst av) dflt"
  using assms by (simp add: choice_preprocessor_def)

lemma distinct_keys_lookup:
  assumes "distinct (map fst av)" and "(nm, c) \<in> set av"
  shows "map_of av nm = Some c"
  using assms by simp





text \<open>The definitions a concrete call is evaluated with.\<close>

lemmas model_defs =
  get_hyperparameter_search_space_def merged_dataset_properties_def resolve_default_def
  defaults_def numerical_columns_of_def choice_preprocessor_def CategoricalHyperparameter_def
  ConfigurationSpace_def add_hyperparameter_def add_configuration_space_def
  check_dataset_properties_def ScalerChoice_init_def get_components_def dict_update_def Let_def

lemmas scenario_defs =
  spec_base_def filter_components_def search_space_updates_def plain_variant_def
  scenario_choice_def third_party_choice_def numerical_properties_def
  categorical_properties_def numerical_only_properties_def categorical_only_properties_def
  string_properties_def choice_update_def List.map_filter_def

section \<open>The claims\<close>

subsection \<open>C9: the resolved default is the first match of the preference order\<close>

text \<open>
  Claim C9. With no explicit default, the default resolved by lines 68--85 is the first
  name of the fixed preference order StandardScaler, Normalizer, MinMaxScaler,
  PowerTransformer, QuantileTransformer, RobustScaler, NoScaler that is a key of the
  available variants, is in the include list when one is given and is not in the exclude
  list when one is given (\<open>List.find\<close> returns the first element of a list that satisfies
  a predicate, and \<open>None\<close> when there is none). When the dataset has numerical columns and
  there is no top-level override, a space that is returned has this name as the default
  of its choice, over the available names.
\<close>

theorem resolved_default_first_match:
  "resolve_default None av inc exc =
     List.find (\<lambda>d. d \<in> set (map fst av) \<and> (inc = None \<or> d \<in> set (the inc))
                      \<and> (exc = None \<or> d \<notin> set (the exc))) defaults
   \<and> defaults = [''StandardScaler'', ''Normalizer'', ''MinMaxScaler'', ''PowerTransformer'',
                  ''QuantileTransformer'', ''RobustScaler'', ''NoScaler'']
   \<and> (\<forall>d cols cs self'.
          get_available_components base self (merged_dataset_properties self dpo) inc exc = Inr av
        \<and> numerical_columns_of (merged_dataset_properties self dpo) = Inr cols \<and> cols \<noteq> []
        \<and> get_search_space_updates base self None ''__choice__'' = None
        \<and> resolve_default None av inc exc = Some d
        \<and> get_hyperparameter_search_space base self dpo None inc exc = (Inr cs, self')
        \<longrightarrow> hyperparameters cs
              = [\<lparr>name = ''__choice__'', choices = map fst av, hp_default_value = d\<rparr>])"
proof (intro conjI allI impI)
  show "resolve_default None av inc exc =
     List.find (\<lambda>d. d \<in> set (map fst av) \<and> (inc = None \<or> d \<in> set (the inc))
                      \<and> (exc = None \<or> d \<notin> set (the exc))) defaults"
    by (simp add: resolve_default_def scan_defaults_find)
  show "defaults = [''StandardScaler'', ''Normalizer'', ''MinMaxScaler'', ''PowerTransformer'',
                  ''QuantileTransformer'', ''RobustScaler'', ''NoScaler'']"
    by (simp add: defaults_def)
next
  fix d cols cs self'
  assume a: "get_available_components base self (merged_dataset_properties self dpo) inc exc = Inr av
        \<and> numerical_columns_of (merged_dataset_properties self dpo) = Inr cols \<and> cols \<noteq> []
        \<and> get_search_space_updates base self None ''__choice__'' = None
        \<and> resolve_default None av inc exc = Some d
        \<and> get_hyperparameter_search_space base self dpo None inc exc = (Inr cs, self')"
  from a ghss_Inr_stages[of base self dpo None inc exc cs self']
  obtain p where p: "choice_preprocessor (get_search_space_updates base self None) av cols (Some d) inc = Inr p"
    and ch: "add_children base self av (merged_dataset_properties self dpo) p (choices p)
                        (add_hyperparameter ConfigurationSpace p) = Inr cs"
    by auto
  from p a have "CategoricalHyperparameter ''__choice__'' (map fst av) (Some d) = Inr p"
    by (simp add: choice_preprocessor_def)
  from CategoricalHyperparameter_Inr[OF this]
  have "p = \<lparr>name = ''__choice__'', choices = map fst av, hp_default_value = d\<rparr>"
    by simp
  moreover from add_children_Inr[OF ch] have "hyperparameters cs = [p]"
    by (simp add: add_hyperparameter_def ConfigurationSpace_def)
  ultimately show "hyperparameters cs
              = [\<lparr>name = ''__choice__'', choices = map fst av, hp_default_value = d\<rparr>]"
    by simp
qed

text \<open>
  Scenario 1 of the spec: StandardScaler and NoScaler registered, one numerical column,
  nothing included, excluded or overridden. The scan stops at StandardScaler.
\<close>

theorem resolved_default_first_match_witness:
  "get_available_components spec_base (scenario_choice [])
        (merged_dataset_properties (scenario_choice []) (Some numerical_properties)) None None
       = Inr (get_components (scenario_choice []))
   \<and> numerical_columns_of (merged_dataset_properties (scenario_choice []) (Some numerical_properties))
       = Inr [PStr ''c1'']
   \<and> get_search_space_updates spec_base (scenario_choice []) None ''__choice__'' = None
   \<and> map fst (get_components (scenario_choice [])) = [''StandardScaler'', ''NoScaler'']
   \<and> resolve_default None (get_components (scenario_choice [])) None None = Some ''StandardScaler''
   \<and> fst (get_hyperparameter_search_space spec_base (scenario_choice []) (Some numerical_properties)
             None None None)
       = Inr \<lparr>hyperparameters =
                [\<lparr>name = ''__choice__'', choices = [''StandardScaler'', ''NoScaler''],
                  hp_default_value = ''StandardScaler''\<rparr>],
              sub_spaces =
                [(''StandardScaler'', [],
                  \<lparr>name = ''__choice__'', choices = [''StandardScaler'', ''NoScaler''],
                   hp_default_value = ''StandardScaler''\<rparr>, ''StandardScaler''),
                 (''NoScaler'', [],
                  \<lparr>name = ''__choice__'', choices = [''StandardScaler'', ''NoScaler''],
                   hp_default_value = ''StandardScaler''\<rparr>, ''NoScaler'')]\<rparr>"
  using resolved_default_first_match
          [of "get_components (scenario_choice [])" None None spec_base "scenario_choice []"
              "Some numerical_properties"]
  by (simp add: model_defs scenario_defs)

subsection \<open>C1: no numerical columns, no override\<close>

text \<open>
  Claim C1. For a property bag whose \<^verbatim>\<open>numerical_columns\<close> is the empty list and with
  no top-level \<^verbatim>\<open>__choice__\<close> override, the choice of every space the call returns
  has the domain NoScaler alone and the default NoScaler, whatever variants are
  available, whatever default, include and exclude were passed. The call does return
  such a space whenever the applicability filter answers with NoScaler among the
  available variants, the include list (if any) holds NoScaler, and NoScaler's own
  sub-space is built.
\<close>

theorem no_numerical_columns_noop_only:
  assumes "dp ''numerical_columns'' = Some (PList [])"
    and "get_search_space_updates base self None ''__choice__'' = None"
  shows "(\<forall>cs self'.
            get_hyperparameter_search_space base self (Some dp) dflt inc exc = (Inr cs, self')
            \<longrightarrow> hyperparameters cs =
                  [\<lparr>name = ''__choice__'', choices = [''NoScaler''],
                    hp_default_value = ''NoScaler''\<rparr>])
       \<and> (\<forall>av c s.
            get_available_components base self (merged_dataset_properties self (Some dp)) inc exc
              = Inr av
          \<and> (inc = None \<or> ''NoScaler'' \<in> set (the inc))
          \<and> map_of av ''NoScaler'' = Some c
          \<and> component_search_space base c (merged_dataset_properties self (Some dp))
                (get_search_space_updates base self (Some ''NoScaler'')) = Inr s
            \<longrightarrow> fst (get_hyperparameter_search_space base self (Some dp) dflt inc exc) =
                  Inr \<lparr>hyperparameters =
                         [\<lparr>name = ''__choice__'', choices = [''NoScaler''],
                           hp_default_value = ''NoScaler''\<rparr>],
                       sub_spaces =
                         [(''NoScaler'', s,
                           \<lparr>name = ''__choice__'', choices = [''NoScaler''],
                            hp_default_value = ''NoScaler''\<rparr>, ''NoScaler'')]\<rparr>)"
proof -
  have nc: "numerical_columns_of (merged_dataset_properties self (Some dp)) = Inr []"
    using assms(1) by (rule numerical_columns_of_empty)
  show ?thesis
    using noop_only_Inr[OF nc assms(2)] noop_only_succeeds[OF nc assms(2)] by blast
qed

text \<open>Scenario 2 of the spec: the registry of scenario 1, no numerical column.\<close>

theorem no_numerical_columns_noop_only_witness:
  "categorical_properties ''numerical_columns'' = Some (PList [])
   \<and> get_search_space_updates spec_base (scenario_choice []) None ''__choice__'' = None
   \<and> map fst (get_components (scenario_choice [])) = [''StandardScaler'', ''NoScaler'']
   \<and> get_available_components spec_base (scenario_choice [])
        (merged_dataset_properties (scenario_choice []) (Some categorical_properties)) None None
       = Inr (get_components (scenario_choice []))
   \<and> map_of (get_components (scenario_choice [])) ''NoScaler'' = Some (plain_variant ''NoScaler'')
   \<and> component_search_space spec_base (plain_variant ''NoScaler'')
        (merged_dataset_properties (scenario_choice []) (Some categorical_properties))
        (get_search_space_updates spec_base (scenario_choice []) (Some ''NoScaler'')) = Inr []
   \<and> fst (get_hyperparameter_search_space spec_base (scenario_choice [])
             (Some categorical_properties) None None None)
       = Inr \<lparr>hyperparameters =
                [\<lparr>name = ''__choice__'', choices = [''NoScaler''],
                  hp_default_value = ''NoScaler''\<rparr>],
              sub_spaces =
                [(''NoScaler'', [],
                  \<lparr>name = ''__choice__'', choices = [''NoScaler''],
                   hp_default_value = ''NoScaler''\<rparr>, ''NoScaler'')]\<rparr>"
  using no_numerical_columns_noop_only
          [of categorical_properties spec_base "scenario_choice []" None None None]
  by (simp add: model_defs scenario_defs)

subsection \<open>C10: a value under numerical\_columns that is not a list\<close>

text \<open>
  Claim C10. When the value under \<^verbatim>\<open>numerical_columns\<close> is present and is not a list,
  lines 87--88 take the dataset to have no numerical columns; with no top-level override
  the call then behaves as for the empty list: every space it returns has the domain
  NoScaler alone with the default NoScaler, and it returns one under the same conditions.
\<close>

theorem non_list_numerical_columns_noop_only:
  assumes "dp ''numerical_columns'' = Some v"
    and "\<not> is_PList v"
    and "get_search_space_updates base self None ''__choice__'' = None"
  shows "numerical_columns_of (merged_dataset_properties self (Some dp)) = Inr []
       \<and> (\<forall>cs self'.
            get_hyperparameter_search_space base self (Some dp) dflt inc exc = (Inr cs, self')
            \<longrightarrow> hyperparameters cs =
                  [\<lparr>name = ''__choice__'', choices = [''NoScaler''],
                    hp_default_value = ''NoScaler''\<rparr>])
       \<and> (\<forall>av c s.
            get_available_components base self (merged_dataset_properties self (Some dp)) inc exc
              = Inr av
          \<and> (inc = None \<or> ''NoScaler'' \<in> set (the inc))
          \<and> map_of av ''NoScaler'' = Some c
          \<and> component_search_space base c (merged_dataset_properties self (Some dp))
                (get_search_space_updates base self (Some ''NoScaler'')) = Inr s
            \<longrightarrow> fst (get_hyperparameter_search_space base self (Some dp) dflt inc exc) =
                  Inr \<lparr>hyperparameters =
                         [\<lparr>name = ''__choice__'', choices = [''NoScaler''],
                           hp_default_value = ''NoScaler''\<rparr>],
                       sub_spaces =
                         [(''NoScaler'', s,
                           \<lparr>name = ''__choice__'', choices = [''NoScaler''],
                            hp_default_value = ''NoScaler''\<rparr>, ''NoScaler'')]\<rparr>)"
proof -
  have nc: "numerical_columns_of (merged_dataset_properties self (Some dp)) = Inr []"
    using assms(1,2) by (rule numerical_columns_of_not_list)
  show ?thesis
    using nc noop_only_Inr[OF nc assms(3)] noop_only_succeeds[OF nc assms(3)] by blast
qed

text \<open>
  The registry of scenario 1 with the string \<^verbatim>\<open>c1\<close> stored under
  \<^verbatim>\<open>numerical_columns\<close>: the same space as for the empty list of scenario 2.
\<close>

theorem non_list_numerical_columns_noop_only_witness:
  "string_properties ''numerical_columns'' = Some (PStr ''c1'')
   \<and> \<not> is_PList (PStr ''c1'')
   \<and> get_search_space_updates spec_base (scenario_choice []) None ''__choice__'' = None
   \<and> get_available_components spec_base (scenario_choice [])
        (merged_dataset_properties (scenario_choice []) (Some string_properties)) None None
       = Inr (get_components (scenario_choice []))
   \<and> map_of (get_components (scenario_choice [])) ''NoScaler'' = Some (plain_variant ''NoScaler'')
   \<and> component_search_space spec_base (plain_variant ''NoScaler'')
        (merged_dataset_properties (scenario_choice []) (Some string_properties))
        (get_search_space_updates spec_base (scenario_choice []) (Some ''NoScaler'')) = Inr []
   \<and> fst (get_hyperparameter_search_space spec_base (scenario_choice [])
             (Some string_properties) None None None)
       = Inr \<lparr>hyperparameters =
                [\<lparr>name = ''__choice__'', choices = [''NoScaler''],
                  hp_default_value = ''NoScaler''\<rparr>],
              sub_spaces =
                [(''NoScaler'', [],
                  \<lparr>name = ''__choice__'', choices = [''NoScaler''],
                   hp_default_value = ''NoScaler''\<rparr>, ''NoScaler'')]\<rparr>
   \<and> fst (get_hyperparameter_search_space spec_base (scenario_choice [])
             (Some string_properties) None None None)
       = fst (get_hyperparameter_search_space spec_base (scenario_choice [])
             (Some categorical_properties) None None None)"
  using non_list_numerical_columns_noop_only
          [of string_properties "PStr ''c1''" spec_base "scenario_choice []" None None None]
  by (simp add: model_defs scenario_defs)

subsection \<open>C8: an include list without the no-op variant\<close>

text \<open>
  Claim C8. With \<^verbatim>\<open>numerical_columns\<close> the empty list, no top-level override and an
  include list that does not hold NoScaler, the call fails and leaves the state as it
  was; once the applicability filter has answered with a non-empty set, the failure is
  the \<open>ValueError\<close> of lines 111--112 (the spec's \<open>IncompatibleDataset\<close>), which reports
  the include list.
\<close>

theorem include_without_noop_fails:
  assumes "dp ''numerical_columns'' = Some (PList [])"
    and "get_search_space_updates base self None ''__choice__'' = None"
    and "''NoScaler'' \<notin> set names"
  shows "(\<exists>e. get_hyperparameter_search_space base self (Some dp) dflt (Some names) exc
               = (Inl e, self))
       \<and> (\<forall>av. get_available_components base self (merged_dataset_properties self (Some dp))
                  (Some names) exc = Inr av \<and> av \<noteq> []
            \<longrightarrow> get_hyperparameter_search_space base self (Some dp) dflt (Some names) exc
                  = (Inl (ValueError (IncludeIncompatible names)), self))"
proof -
  have nc: "numerical_columns_of (merged_dataset_properties self (Some dp)) = Inr []"
    using assms(1) by (rule numerical_columns_of_empty)
  have specific: "get_hyperparameter_search_space base self (Some dp) dflt (Some names) exc
                  = (Inl (ValueError (IncludeIncompatible names)), self)"
    if "get_available_components base self (merged_dataset_properties self (Some dp))
          (Some names) exc = Inr av" and "av \<noteq> []" for av
    using assms(3) by (simp add: noop_only_result[OF nc assms(2) that])
  have "\<exists>e. get_hyperparameter_search_space base self (Some dp) dflt (Some names) exc
               = (Inl e, self)"
  proof (cases "get_available_components base self (merged_dataset_properties self (Some dp))
                  (Some names) exc")
    case (Inl e)
    then show ?thesis by (simp add: get_hyperparameter_search_space_def)
  next
    case (Inr av)
    show ?thesis
    proof (cases "av = []")
      case True
      with Inr show ?thesis by (simp add: get_hyperparameter_search_space_def)
    next
      case False
      with Inr specific show ?thesis by simp
    qed
  qed
  with specific show ?thesis by blast
qed

text \<open>The registry of scenario 1, no numerical column, only StandardScaler included.\<close>

theorem include_without_noop_fails_witness:
  "categorical_properties ''numerical_columns'' = Some (PList [])
   \<and> get_search_space_updates spec_base (scenario_choice []) None ''__choice__'' = None
   \<and> ''NoScaler'' \<notin> set [''StandardScaler'']
   \<and> get_available_components spec_base (scenario_choice [])
        (merged_dataset_properties (scenario_choice []) (Some categorical_properties))
        (Some [''StandardScaler'']) None
       = Inr [(''StandardScaler'', plain_variant ''StandardScaler'')]
   \<and> get_hyperparameter_search_space spec_base (scenario_choice [])
        (Some categorical_properties) None (Some [''StandardScaler'']) None
       = (Inl (ValueError (IncludeIncompatible [''StandardScaler''])), scenario_choice [])"
  using include_without_noop_fails
          [of categorical_properties spec_base "scenario_choice []" "[''StandardScaler'']" None None]
  by (simp add: model_defs scenario_defs)

subsection \<open>C2: an override outside the available variants\<close>

text \<open>
  Claim C2. When the value range of the top-level \<^verbatim>\<open>__choice__\<close> override is not a
  subset of the names of the available variants, the call fails and the state after it
  is the state before it: the registry (\<open>scalers\<close>, \<open>addons\<close>) and the cache
  (\<open>self_configuration_space\<close>, \<open>self_dataset_properties\<close>) are untouched. When the
  available set is not empty and the merged properties hold \<^verbatim>\<open>numerical_columns\<close>, the
  failure is the \<open>ValueError\<close> of lines 93--96 (the spec's \<open>InvalidOverrideDomain\<close>), which
  reports the available names and the override's range.
\<close>

theorem override_outside_available_fails:
  fixes base :: "('c, 's) autoPyTorchChoice"
  assumes av: "get_available_components base self (merged_dataset_properties self dpo) inc exc
                 = Inr av"
    and upd: "get_search_space_updates base self None ''__choice__'' = Some h"
    and ns: "\<not> set (value_range h) \<subseteq> set (map fst av)"
  shows "(\<exists>e. get_hyperparameter_search_space base self dpo dflt inc exc = (Inl e, self))
       \<and> (av \<noteq> [] \<and> ''numerical_columns'' \<in> dom (merged_dataset_properties self dpo)
            \<longrightarrow> get_hyperparameter_search_space base self dpo dflt inc exc
                  = (Inl (ValueError (UpdateChoices ''ScalerChoice'' (map fst av) (value_range h))),
                     self))"
proof
  show "\<exists>e. get_hyperparameter_search_space base self dpo dflt inc exc = (Inl e, self)"
  proof (rule ghss_fails)
    fix av' :: "(string \<times> 'c) list" and cols p
    assume "get_available_components base self (merged_dataset_properties self dpo) inc exc
              = Inr av'"
      and "choice_preprocessor (get_search_space_updates base self None) av' cols
             (resolve_default dflt av' inc exc) inc = Inr p"
    with av ns show False by (simp add: override_preprocessor[of "get_search_space_updates base self None" h, OF upd])
  qed
next
  show "av \<noteq> [] \<and> ''numerical_columns'' \<in> dom (merged_dataset_properties self dpo)
            \<longrightarrow> get_hyperparameter_search_space base self dpo dflt inc exc
                  = (Inl (ValueError (UpdateChoices ''ScalerChoice'' (map fst av) (value_range h))),
                     self)"
  proof
    assume a: "av \<noteq> [] \<and> ''numerical_columns'' \<in> dom (merged_dataset_properties self dpo)"
    then obtain cols where
      nc: "numerical_columns_of (merged_dataset_properties self dpo) = Inr cols"
      by (auto simp: numerical_columns_of_def)
    from a have ne: "av \<noteq> []" by simp
    from ns show "get_hyperparameter_search_space base self dpo dflt inc exc
                  = (Inl (ValueError (UpdateChoices ''ScalerChoice'' (map fst av) (value_range h))),
                     self)"
      by (simp add: ghss_stages[OF av ne nc] override_preprocessor[of "get_search_space_updates base self None" h, OF upd])
  qed
qed

text \<open>
  The registry of scenario 1 with numerical columns and an override whose range is
  PowerTransformer, which is not registered.
\<close>

theorem override_outside_available_fails_witness:
  "get_available_components spec_base
        (scenario_choice [choice_update [''PowerTransformer''] ''PowerTransformer''])
        (merged_dataset_properties
           (scenario_choice [choice_update [''PowerTransformer''] ''PowerTransformer''])
           (Some numerical_properties)) None None
       = Inr [(''StandardScaler'', plain_variant ''StandardScaler''),
              (''NoScaler'', plain_variant ''NoScaler'')]
   \<and> get_search_space_updates spec_base
        (scenario_choice [choice_update [''PowerTransformer''] ''PowerTransformer'']) None
        ''__choice__''
       = Some (snd (choice_update [''PowerTransformer''] ''PowerTransformer''))
   \<and> \<not> set [''PowerTransformer''] \<subseteq> set [''StandardScaler'', ''NoScaler'']
   \<and> get_hyperparameter_search_space spec_base
        (scenario_choice [choice_update [''PowerTransformer''] ''PowerTransformer''])
        (Some numerical_properties) None None None
       = (Inl (ValueError (UpdateChoices ''ScalerChoice'' [''StandardScaler'', ''NoScaler'']
                             [''PowerTransformer''])),
          scenario_choice [choice_update [''PowerTransformer''] ''PowerTransformer''])"
  using override_outside_available_fails
          [where base = spec_base
             and self = "scenario_choice [choice_update [''PowerTransformer''] ''PowerTransformer'']"
             and dpo = "Some numerical_properties" and inc = None and exc = None
             and av = "[(''StandardScaler'', plain_variant ''StandardScaler''),
                        (''NoScaler'', plain_variant ''NoScaler'')]"
             and h = "snd (choice_update [''PowerTransformer''] ''PowerTransformer'')"
             and dflt = None]
  by (simp add: model_defs scenario_defs)

subsection \<open>C5: an override for a dataset without numerical columns\<close>

text \<open>
  Claim C5. With \<^verbatim>\<open>numerical_columns\<close> the empty list and a top-level override whose
  value range is anything but the singleton NoScaler, the call fails and leaves the state
  as it was. Once the filter has answered with a non-empty set that holds the range, the
  failure is the one of lines 97--101 (the spec's \<open>IncompatibleDatasetOverride\<close>): the
  assertion of line 98 for a range that is not a singleton, the \<open>ValueError\<close> of lines
  100--101, which reports the range, for a singleton other than NoScaler. Assertions are
  taken as enabled, as they are unless the interpreter runs with optimisation on.
\<close>

theorem no_numerical_columns_override_must_be_noop:
  fixes base :: "('c, 's) autoPyTorchChoice"
  assumes dp: "dp ''numerical_columns'' = Some (PList [])"
    and upd: "get_search_space_updates base self None ''__choice__'' = Some h"
    and other: "value_range h \<noteq> [''NoScaler'']"
  shows "(\<exists>e. get_hyperparameter_search_space base self (Some dp) dflt inc exc = (Inl e, self))
       \<and> (\<forall>av. get_available_components base self (merged_dataset_properties self (Some dp))
                  inc exc = Inr av
               \<and> av \<noteq> [] \<and> set (value_range h) \<subseteq> set (map fst av)
            \<longrightarrow> get_hyperparameter_search_space base self (Some dp) dflt inc exc
                  = (Inl (if length (value_range h) \<noteq> 1 then AssertionError []
                          else ValueError (ChoicesIncompatible (value_range h))),
                     self))"
proof -
  have nc: "numerical_columns_of (merged_dataset_properties self (Some dp)) = Inr []"
    using dp by (rule numerical_columns_of_empty)
  have pre: "choice_preprocessor (get_search_space_updates base self None) av [] d inc =
               (if \<not> set (value_range h) \<subseteq> set (map fst av) then
                  Inl (ValueError (UpdateChoices ''ScalerChoice'' (map fst av) (value_range h)))
                else if length (value_range h) \<noteq> 1 then Inl (AssertionError [])
                else Inl (ValueError (ChoicesIncompatible (value_range h))))" for av :: "(string \<times> 'c) list" and d
    using singleton_other[of "value_range h" "''NoScaler''"] other
    by (simp add: override_preprocessor[of "get_search_space_updates base self None" h, OF upd])
  have "\<exists>e. get_hyperparameter_search_space base self (Some dp) dflt inc exc = (Inl e, self)"
  proof (rule ghss_fails)
    fix av' :: "(string \<times> 'c) list" and cols p
    assume "numerical_columns_of (merged_dataset_properties self (Some dp)) = Inr cols"
      and "choice_preprocessor (get_search_space_updates base self None) av' cols
             (resolve_default dflt av' inc exc) inc = Inr p"
    with nc show False by (simp add: pre split: if_splits)
  qed
  moreover have "get_hyperparameter_search_space base self (Some dp) dflt inc exc
                  = (Inl (if length (value_range h) \<noteq> 1 then AssertionError []
                          else ValueError (ChoicesIncompatible (value_range h))),
                     self)"
    if "get_available_components base self (merged_dataset_properties self (Some dp))
                  inc exc = Inr av" and "av \<noteq> []" and "set (value_range h) \<subseteq> set (map fst av)"
    for av
    using that(3) by (simp add: ghss_stages[OF that(1,2) nc] pre)
  ultimately show ?thesis by blast
qed

text \<open>
  Scenario 4 of the spec: no numerical column and an override whose range is
  StandardScaler; and the same dataset with an override of two names.
\<close>

theorem no_numerical_columns_override_must_be_noop_witness:
  "categorical_properties ''numerical_columns'' = Some (PList [])
   \<and> get_search_space_updates spec_base
        (scenario_choice [choice_update [''StandardScaler''] ''StandardScaler'']) None
        ''__choice__''
       = Some (snd (choice_update [''StandardScaler''] ''StandardScaler''))
   \<and> value_range (snd (choice_update [''StandardScaler''] ''StandardScaler'')) \<noteq> [''NoScaler'']
   \<and> get_available_components spec_base
        (scenario_choice [choice_update [''StandardScaler''] ''StandardScaler''])
        (merged_dataset_properties
           (scenario_choice [choice_update [''StandardScaler''] ''StandardScaler''])
           (Some categorical_properties)) None None
       = Inr [(''StandardScaler'', plain_variant ''StandardScaler''),
              (''NoScaler'', plain_variant ''NoScaler'')]
   \<and> get_hyperparameter_search_space spec_base
        (scenario_choice [choice_update [''StandardScaler''] ''StandardScaler''])
        (Some categorical_properties) None None None
       = (Inl (ValueError (ChoicesIncompatible [''StandardScaler''])),
          scenario_choice [choice_update [''StandardScaler''] ''StandardScaler''])
   \<and> get_hyperparameter_search_space spec_base
        (scenario_choice [choice_update [''NoScaler'', ''StandardScaler''] ''NoScaler''])
        (Some categorical_properties) None None None
       = (Inl (AssertionError []),
          scenario_choice [choice_update [''NoScaler'', ''StandardScaler''] ''NoScaler''])"
  using no_numerical_columns_override_must_be_noop
          [where base = spec_base
             and self = "scenario_choice [choice_update [''StandardScaler''] ''StandardScaler'']"
             and dp = categorical_properties and inc = None and exc = None
             and h = "snd (choice_update [''StandardScaler''] ''StandardScaler'')"
             and dflt = None]
        no_numerical_columns_override_must_be_noop
          [where base = spec_base
             and self = "scenario_choice [choice_update [''NoScaler'', ''StandardScaler''] ''NoScaler'']"
             and dp = categorical_properties and inc = None and exc = None
             and h = "snd (choice_update [''NoScaler'', ''StandardScaler''] ''NoScaler'')"
             and dflt = None]
  by (simp add: model_defs scenario_defs)

subsection \<open>C6: an override whose default is outside its own range\<close>

text \<open>
  Claim C6. When the default of the top-level override is not in the override's own value
  range, the call fails and leaves the state as it was, whatever the dataset. When the
  earlier checks pass (a non-empty available set that holds the range, numerical columns
  or the singleton NoScaler) and the range lists no name twice, the failure is the
  constructor's refusal of the default at lines 103--105 (the spec's
  \<open>InvalidOverrideDefault\<close>).
\<close>

theorem override_default_outside_range_fails:
  fixes base :: "('c, 's) autoPyTorchChoice"
  assumes upd: "get_search_space_updates base self None ''__choice__'' = Some h"
    and out: "default_value h \<notin> set (value_range h)"
  shows "(\<exists>e. get_hyperparameter_search_space base self dpo dflt inc exc = (Inl e, self))
       \<and> (\<forall>av cols.
            get_available_components base self (merged_dataset_properties self dpo) inc exc = Inr av
          \<and> av \<noteq> []
          \<and> numerical_columns_of (merged_dataset_properties self dpo) = Inr cols
          \<and> set (value_range h) \<subseteq> set (map fst av)
          \<and> (cols \<noteq> [] \<or> value_range h = [''NoScaler''])
          \<and> distinct (value_range h)
            \<longrightarrow> get_hyperparameter_search_space base self dpo dflt inc exc
                  = (Inl (ValueError (IllegalDefault (default_value h))), self))"
proof -
  have "\<exists>e. get_hyperparameter_search_space base self dpo dflt inc exc = (Inl e, self)"
  proof (rule ghss_fails)
    fix av' :: "(string \<times> 'c) list" and cols p
    assume "choice_preprocessor (get_search_space_updates base self None) av' cols
             (resolve_default dflt av' inc exc) inc = Inr p"
    then have "CategoricalHyperparameter ''__choice__'' (value_range h) (Some (default_value h))
                 = Inr p"
      by (simp add: override_preprocessor[of "get_search_space_updates base self None" h, OF upd] split: if_splits)
    from CategoricalHyperparameter_Inr[OF this] out show False by auto
  qed
  moreover have "get_hyperparameter_search_space base self dpo dflt inc exc
                  = (Inl (ValueError (IllegalDefault (default_value h))), self)"
    if a: "get_available_components base self (merged_dataset_properties self dpo) inc exc = Inr av"
      "av \<noteq> []"
      "numerical_columns_of (merged_dataset_properties self dpo) = Inr cols"
      and b: "set (value_range h) \<subseteq> set (map fst av)"
        "cols \<noteq> [] \<or> value_range h = [''NoScaler'']"
        "distinct (value_range h)"
    for av cols
    using b CategoricalHyperparameter_illegal_distinct[OF out b(3), of "''__choice__''"]
    by (auto simp: ghss_stages[OF a] override_preprocessor[of "get_search_space_updates base self None" h, OF upd])
  ultimately show ?thesis by blast
qed

text \<open>
  The registry of scenario 1 with numerical columns and an override with the range
  StandardScaler and the default NoScaler.
\<close>

theorem override_default_outside_range_fails_witness:
  "get_search_space_updates spec_base
        (scenario_choice [choice_update [''StandardScaler''] ''NoScaler'']) None ''__choice__''
       = Some (snd (choice_update [''StandardScaler''] ''NoScaler''))
   \<and> default_value (snd (choice_update [''StandardScaler''] ''NoScaler''))
       \<notin> set (value_range (snd (choice_update [''StandardScaler''] ''NoScaler'')))
   \<and> get_available_components spec_base
        (scenario_choice [choice_update [''StandardScaler''] ''NoScaler''])
        (merged_dataset_properties
           (scenario_choice [choice_update [''StandardScaler''] ''NoScaler''])
           (Some numerical_properties)) None None
       = Inr [(''StandardScaler'', plain_variant ''StandardScaler''),
              (''NoScaler'', plain_variant ''NoScaler'')]
   \<and> numerical_columns_of
        (merged_dataset_properties
           (scenario_choice [choice_update [''StandardScaler''] ''NoScaler''])
           (Some numerical_properties))
       = Inr [PStr ''c1'']
   \<and> get_hyperparameter_search_space spec_base
        (scenario_choice [choice_update [''StandardScaler''] ''NoScaler''])
        (Some numerical_properties) None None None
       = (Inl (ValueError (IllegalDefault ''NoScaler'')),
          scenario_choice [choice_update [''StandardScaler''] ''NoScaler''])"
  using override_default_outside_range_fails
          [where base = spec_base
             and self = "scenario_choice [choice_update [''StandardScaler''] ''NoScaler'']"
             and dpo = "Some numerical_properties" and inc = None and exc = None
             and h = "snd (choice_update [''StandardScaler''] ''NoScaler'')"
             and dflt = None]
  by (simp add: model_defs scenario_defs)

subsection \<open>C3: the choice of a returned space\<close>

text \<open>
  Claim C3. Every space the call returns has one hyperparameter, the categorical
  \<^verbatim>\<open>__choice__\<close>; every name of its domain is a key of the available variants that
  \<^verbatim>\<open>get_available_components\<close> computed for this call (the loop of lines 123--129 looks
  each name up there), and its default is a member of its domain.
\<close>

theorem returned_choice_invariant:
  assumes "get_hyperparameter_search_space base self dpo dflt inc exc = (Inr cs, self')"
  shows "\<exists>av p.
           get_available_components base self (merged_dataset_properties self dpo) inc exc = Inr av
         \<and> hyperparameters cs = [p]
         \<and> get_hyperparameter cs ''__choice__'' = Some p
         \<and> set (choices p) \<subseteq> set (map fst av)
         \<and> hp_default_value p \<in> set (choices p)"
proof -
  from ghss_Inr_stages[OF assms] obtain av cols p where
    av: "get_available_components base self (merged_dataset_properties self dpo) inc exc = Inr av"
    and p: "choice_preprocessor (get_search_space_updates base self None) av cols
              (resolve_default dflt av inc exc) inc = Inr p"
    and ch: "add_children base self av (merged_dataset_properties self dpo) p (choices p)
               (add_hyperparameter ConfigurationSpace p) = Inr cs"
    by blast
  from add_children_Inr[OF ch] have hs: "hyperparameters cs = [p]"
    and sub: "set (choices p) \<subseteq> set (map fst av)"
    by (simp_all add: add_hyperparameter_def ConfigurationSpace_def)
  from choice_preprocessor_Inr[OF p] have nm: "name p = ''__choice__''"
    and d: "hp_default_value p \<in> set (choices p)"
    by simp_all
  from hs nm have "get_hyperparameter cs ''__choice__'' = Some p"
    by (simp add: get_hyperparameter_def)
  with av hs sub d show ?thesis by blast
qed

text \<open>
  The registry of scenario 1 with numerical columns and StandardScaler excluded: the
  available set and the domain are NoScaler alone.
\<close>

theorem returned_choice_invariant_witness:
  "fst (get_hyperparameter_search_space spec_base (scenario_choice []) (Some numerical_properties)
          None None (Some [''StandardScaler'']))
     = Inr \<lparr>hyperparameters =
                [\<lparr>name = ''__choice__'', choices = [''NoScaler''],
                  hp_default_value = ''NoScaler''\<rparr>],
              sub_spaces =
                [(''NoScaler'', [],
                  \<lparr>name = ''__choice__'', choices = [''NoScaler''],
                   hp_default_value = ''NoScaler''\<rparr>, ''NoScaler'')]\<rparr>
   \<and> get_available_components spec_base (scenario_choice [])
        (merged_dataset_properties (scenario_choice []) (Some numerical_properties))
        None (Some [''StandardScaler''])
       = Inr [(''NoScaler'', plain_variant ''NoScaler'')]
   \<and> get_hyperparameter
         (projr (fst (get_hyperparameter_search_space spec_base (scenario_choice [])
                        (Some numerical_properties) None None (Some [''StandardScaler'']))))
         ''__choice__''
       = Some \<lparr>name = ''__choice__'', choices = [''NoScaler''], hp_default_value = ''NoScaler''\<rparr>
   \<and> set [''NoScaler''] \<subseteq> set (map fst [(''NoScaler'', plain_variant ''NoScaler'')])
   \<and> ''NoScaler'' \<in> set [''NoScaler'']"
proof -
  let ?r = "get_hyperparameter_search_space spec_base (scenario_choice [])
              (Some numerical_properties) None None (Some [''StandardScaler''])"
  let ?p = "\<lparr>name = ''__choice__'', choices = [''NoScaler''], hp_default_value = ''NoScaler''\<rparr>"
  have r: "fst ?r = Inr \<lparr>hyperparameters = [?p],
                        sub_spaces = [(''NoScaler'', [], ?p, ''NoScaler'')]\<rparr>"
    by (simp add: model_defs scenario_defs)
  then have "?r = (Inr (projr (fst ?r)), snd ?r)"
    by (metis prod.collapse sum.sel(2))
  from returned_choice_invariant[OF this] obtain av p where
    av: "get_available_components spec_base (scenario_choice [])
           (merged_dataset_properties (scenario_choice []) (Some numerical_properties))
           None (Some [''StandardScaler'']) = Inr av"
    and hs: "hyperparameters (projr (fst ?r)) = [p]"
    and g: "get_hyperparameter (projr (fst ?r)) ''__choice__'' = Some p"
    and sub: "set (choices p) \<subseteq> set (map fst av)"
    and d: "hp_default_value p \<in> set (choices p)"
    by blast
  from hs r have p: "p = ?p" by simp
  have "get_available_components spec_base (scenario_choice [])
           (merged_dataset_properties (scenario_choice []) (Some numerical_properties))
           None (Some [''StandardScaler'']) = Inr [(''NoScaler'', plain_variant ''NoScaler'')]"
    by (simp add: model_defs scenario_defs)
  with av have a: "av = [(''NoScaler'', plain_variant ''NoScaler'')]" by simp
  from r av g sub d show ?thesis unfolding p a by simp
qed

subsection \<open>C4: a scan that finds no candidate\<close>

text \<open>
  Claim C4 says that a call with no explicit default whose scan finds no candidate fails
  with \<open>NoDefaultFound\<close>. The source has no such failure: the loop of lines 78--85 ends
  and leaves the default unset. With a registry that holds one third-party variant,
  MyScaler, and a dataset with a numerical column, the scan finds nothing and the call
  returns a space whose choice is MyScaler, with and without a top-level override.
\<close>

theorem no_default_found_counterexample:
  "resolve_default None (get_components (third_party_choice [])) None None = None
   \<and> fst (get_hyperparameter_search_space spec_base (third_party_choice [])
             (Some numerical_properties) None None None)
       = Inr \<lparr>hyperparameters =
                [\<lparr>name = ''__choice__'', choices = [''MyScaler''],
                  hp_default_value = ''MyScaler''\<rparr>],
              sub_spaces =
                [(''MyScaler'', [],
                  \<lparr>name = ''__choice__'', choices = [''MyScaler''],
                   hp_default_value = ''MyScaler''\<rparr>, ''MyScaler'')]\<rparr>
   \<and> resolve_default None
         (get_components (third_party_choice [choice_update [''MyScaler''] ''MyScaler'']))
         None None = None
   \<and> fst (get_hyperparameter_search_space spec_base
             (third_party_choice [choice_update [''MyScaler''] ''MyScaler''])
             (Some numerical_properties) None None None)
       = Inr \<lparr>hyperparameters =
                [\<lparr>name = ''__choice__'', choices = [''MyScaler''],
                  hp_default_value = ''MyScaler''\<rparr>],
              sub_spaces =
                [(''MyScaler'', [],
                  \<lparr>name = ''__choice__'', choices = [''MyScaler''],
                   hp_default_value = ''MyScaler''\<rparr>, ''MyScaler'')]\<rparr>"
  by (simp add: model_defs scenario_defs)

text \<open>
  Claim C4 as amended. When no explicit default is given and no name of the preference
  order is available, included (if an include list is given) and not excluded, the
  resolved default stays unset and no error is raised for it. For a dataset with
  numerical columns and no top-level override, the choice is then built over the
  available names with no default given: every space the call returns has the first
  available name as the default of its choice, and the call returns one whenever the
  available set is not empty and every available variant's sub-space is built.
\<close>

theorem unset_default_first_available:
  fixes base :: "('c, 's) autoPyTorchChoice"
  assumes scan: "\<forall>d \<in> set defaults.
                   d \<notin> set (map fst av) \<or> (inc \<noteq> None \<and> d \<notin> set (the inc))
                   \<or> (exc \<noteq> None \<and> d \<in> set (the exc))"
    and av: "get_available_components base self (merged_dataset_properties self dpo) inc exc
               = Inr av"
    and nc: "numerical_columns_of (merged_dataset_properties self dpo) = Inr cols"
    and cols: "cols \<noteq> []"
    and upd: "get_search_space_updates base self None ''__choice__'' = None"
  shows "resolve_default None av inc exc = None
       \<and> (\<forall>cs self'.
            get_hyperparameter_search_space base self dpo None inc exc = (Inr cs, self')
            \<longrightarrow> hyperparameters cs =
                  [\<lparr>name = ''__choice__'', choices = map fst av,
                    hp_default_value = hd (map fst av)\<rparr>])
       \<and> (av \<noteq> [] \<and> distinct (map fst av)
          \<and> (\<forall>(nm, c) \<in> set av.
                \<exists>s. component_search_space base c (merged_dataset_properties self dpo)
                       (get_search_space_updates base self (Some nm)) = Inr s)
            \<longrightarrow> (\<exists>cs self'.
                   get_hyperparameter_search_space base self dpo None inc exc = (Inr cs, self')))"
proof (intro conjI allI impI)
  show unset: "resolve_default None av inc exc = None"
    using scan by (auto simp: resolve_default_def scan_defaults_find find_None_iff)
  note pre = plain_preprocessor[of "get_search_space_updates base self None" cols, OF upd cols]
  {
    fix cs self'
    assume r: "get_hyperparameter_search_space base self dpo None inc exc = (Inr cs, self')"
    from ghss_Inr_stages[OF r] av nc obtain p where
      p: "choice_preprocessor (get_search_space_updates base self None) av cols
            (resolve_default None av inc exc) inc = Inr p"
      and ch: "add_children base self av (merged_dataset_properties self dpo) p (choices p)
                 (add_hyperparameter ConfigurationSpace p) = Inr cs"
      by auto
    from p have "CategoricalHyperparameter ''__choice__'' (map fst av) None = Inr p"
      by (simp add: pre unset)
    from CategoricalHyperparameter_Inr[OF this]
    have "p = \<lparr>name = ''__choice__'', choices = map fst av,
                hp_default_value = hd (map fst av)\<rparr>"
      by simp
    moreover from add_children_Inr[OF ch] have "hyperparameters cs = [p]"
      by (simp add: add_hyperparameter_def ConfigurationSpace_def)
    ultimately show "hyperparameters cs =
                  [\<lparr>name = ''__choice__'', choices = map fst av,
                    hp_default_value = hd (map fst av)\<rparr>]"
      by simp
  }
  {
    assume ok: "av \<noteq> [] \<and> distinct (map fst av)
          \<and> (\<forall>(nm, c) \<in> set av.
                \<exists>s. component_search_space base c (merged_dataset_properties self dpo)
                       (get_search_space_updates base self (Some nm)) = Inr s)"
    then have ne: "av \<noteq> []" and dist: "distinct (map fst av)" by simp_all
    from ne obtain a rest where ar: "map fst av = a # rest" by (cases av) auto
    let ?p = "\<lparr>name = ''__choice__'', choices = a # rest, hp_default_value = a\<rparr>"
    from dist have cat: "CategoricalHyperparameter ''__choice__'' (map fst av) None = Inr ?p"
      unfolding ar by (rule CategoricalHyperparameter_None)
    have "\<forall>nm \<in> set (choices ?p). \<exists>c s. map_of av nm = Some c
            \<and> component_search_space base c (merged_dataset_properties self dpo)
                 (get_search_space_updates base self (Some nm)) = Inr s"
    proof
      fix nm assume "nm \<in> set (choices ?p)"
      then have "nm \<in> set (map fst av)" by (simp add: ar)
      then obtain c where m: "(nm, c) \<in> set av" by auto
      with ok obtain s where
        "component_search_space base c (merged_dataset_properties self dpo)
           (get_search_space_updates base self (Some nm)) = Inr s"
        by blast
      with distinct_keys_lookup[OF dist m]
      show "\<exists>c s. map_of av nm = Some c
            \<and> component_search_space base c (merged_dataset_properties self dpo)
                 (get_search_space_updates base self (Some nm)) = Inr s"
        by blast
    qed
    from add_children_succeeds[OF this] obtain cs' where
      "add_children base self av (merged_dataset_properties self dpo) ?p (choices ?p)
         (add_hyperparameter ConfigurationSpace ?p) = Inr cs'"
      by blast
    then show "\<exists>cs self'.
                 get_hyperparameter_search_space base self dpo None inc exc = (Inr cs, self')"
      by (simp add: ghss_stages[OF av ne nc] pre unset cat)
  }
qed

text \<open>The registry with MyScaler alone, one numerical column, nothing else given.\<close>

theorem unset_default_first_available_witness:
  "map fst (get_components (third_party_choice [])) = [''MyScaler'']
   \<and> ''MyScaler'' \<notin> set defaults
   \<and> get_available_components spec_base (third_party_choice [])
        (merged_dataset_properties (third_party_choice []) (Some numerical_properties)) None None
       = Inr [(''MyScaler'', plain_variant ''MyScaler'')]
   \<and> numerical_columns_of
        (merged_dataset_properties (third_party_choice []) (Some numerical_properties))
       = Inr [PStr ''c1'']
   \<and> get_search_space_updates spec_base (third_party_choice []) None ''__choice__'' = None
   \<and> component_search_space spec_base (plain_variant ''MyScaler'')
        (merged_dataset_properties (third_party_choice []) (Some numerical_properties))
        (get_search_space_updates spec_base (third_party_choice []) (Some ''MyScaler'')) = Inr []
   \<and> resolve_default None [(''MyScaler'', plain_variant ''MyScaler'')] None None = None
   \<and> fst (get_hyperparameter_search_space spec_base (third_party_choice [])
             (Some numerical_properties) None None None)
       = Inr \<lparr>hyperparameters =
                [\<lparr>name = ''__choice__'', choices = [''MyScaler''],
                  hp_default_value = ''MyScaler''\<rparr>],
              sub_spaces =
                [(''MyScaler'', [],
                  \<lparr>name = ''__choice__'', choices = [''MyScaler''],
                   hp_default_value = ''MyScaler''\<rparr>, ''MyScaler'')]\<rparr>"
  using unset_default_first_available
          [where base = spec_base and self = "third_party_choice []"
             and dpo = "Some numerical_properties" and inc = None and exc = None
             and av = "[(''MyScaler'', plain_variant ''MyScaler'')]"
             and cols = "[PStr ''c1'']"]
  by (simp add: model_defs scenario_defs)

subsection \<open>C7: a property bag without a column key\<close>



end
